theory Spec2Isabelle
  imports Main
begin

section \<open>JavaScript values\<close>

text \<open>
  The subscription routes read provider fields through \<open>as any\<close> casts, so a field may
  hold any primitive. Numbers are the integral doubles together with \<open>NaN\<close> and the two
  infinities: epoch seconds are integers. Arithmetic on them is exact below \<open>2 ^ 53\<close>,
  which lies above the largest time value a \<open>Date\<close> accepts, and rounds to the nearest
  double beyond.
\<close>

datatype jsnum = NaN | PosInf | NegInf | Fin int

datatype jsval = JUndefined | JNull | JBool bool | JNum jsnum | JStr string

datatype exn = RangeError | Thrown string

fun truthy :: "jsval \<Rightarrow> bool" where
  "truthy JUndefined = False"
| "truthy JNull = False"
| "truthy (JBool b) = b"
| "truthy (JNum NaN) = False"
| "truthy (JNum (Fin n)) = (n \<noteq> 0)"
| "truthy (JNum PosInf) = True"
| "truthy (JNum NegInf) = True"
| "truthy (JStr s) = (s \<noteq> [])"

fun typeof :: "jsval \<Rightarrow> string" where
  "typeof JUndefined = ''undefined''"
| "typeof JNull = ''object''"
| "typeof (JBool b) = ''boolean''"
| "typeof (JNum n) = ''number''"
| "typeof (JStr s) = ''string''"

fun isNaN :: "jsnum \<Rightarrow> bool" where
  "isNaN NaN = True"
| "isNaN n = False"

text \<open>
  The double nearest to an integer. A double has 53 significant bits: \<open>ulp 1 m\<close> is the
  spacing of the doubles around the magnitude \<open>m\<close>, the least power of two \<open>u\<close> with
  \<open>m < 2 ^ 53 * u\<close>. A magnitude between two doubles goes to the nearer one, and to the
  one with the even significand when it is halfway; a result of \<open>2 ^ 1024\<close> or more is
  an infinity.
\<close>

function ulp :: "int \<Rightarrow> int \<Rightarrow> int" where
  "ulp u m = (if u \<le> 0 \<or> m < 9007199254740992 * u then u else ulp (2 * u) m)"
  by pat_completeness auto
termination
  by (relation "measure (\<lambda>(u, m). nat (m - u))") auto

definition round_even :: "int \<Rightarrow> int" where
  "round_even m =
     (let u = ulp 1 m; q = m div u; r = m mod u
      in (if 2 * r < u then q
          else if u < 2 * r then q + 1
          else if even q then q else q + 1) * u)"

definition to_double :: "int \<Rightarrow> jsnum" where
  "to_double n =
     (let r = round_even \<bar>n\<bar>
      in if 2 ^ 1024 \<le> r then (if n < 0 then NegInf else PosInf)
         else Fin (if n < 0 then - r else r))"

text \<open>\<open>x * k\<close> and \<open>x + k\<close> for a number \<open>x\<close> and a positive integer constant \<open>k\<close>.\<close>

fun times_const :: "jsnum \<Rightarrow> int \<Rightarrow> jsnum" where
  "times_const (Fin n) k = to_double (n * k)"
| "times_const x k = x"

fun plus_const :: "jsnum \<Rightarrow> int \<Rightarrow> jsnum" where
  "plus_const (Fin n) k = to_double (n + k)"
| "plus_const x k = x"

definition digit :: "int \<Rightarrow> char" where
  "digit d = ''0123456789'' ! nat (d mod 10)"

function decimal :: "int \<Rightarrow> string" where
  "decimal n = (if n < 10 then [digit n] else decimal (n div 10) @ [digit n])"
  by pat_completeness auto
termination
  by (relation "measure nat") auto

text \<open>
  The binary \<open>+\<close> of JavaScript with a positive integer constant on the right: numeric
  addition after \<open>ToNumber\<close>, except that a string operand makes it a concatenation.
\<close>

fun js_add_const :: "jsval \<Rightarrow> int \<Rightarrow> jsval" where
  "js_add_const (JNum x) k = JNum (plus_const x k)"
| "js_add_const (JStr s) k = JStr (s @ decimal k)"
| "js_add_const (JBool b) k = JNum (to_double ((if b then 1 else 0) + k))"
| "js_add_const JNull k = JNum (to_double k)"
| "js_add_const JUndefined k = JNum NaN"

section \<open>The built-in Date\<close>

text \<open>
  A \<open>Date\<close> is its time value in milliseconds, \<open>None\<close> standing for the \<open>NaN\<close> of an
  invalid date. \<open>new Date(v)\<close> clips \<open>v\<close> to \<open>\<plusminus>8.64e15\<close> ms; \<open>toISOString\<close> throws a
  \<open>RangeError\<close> on an invalid date and otherwise prints UTC as
  \<open>YYYY-MM-DDTHH:mm:ss.sssZ\<close>, with a sign and six digits for years outside 0..9999.
\<close>

type_synonym date = "int option"

definition maxTime :: int where
  "maxTime = 8640000000000000"

fun newDate :: "jsnum \<Rightarrow> date" where
  "newDate (Fin ms) = (if \<bar>ms\<bar> \<le> maxTime then Some ms else None)"
| "newDate x = None"

fun getTime :: "date \<Rightarrow> jsnum" where
  "getTime None = NaN"
| "getTime (Some ms) = Fin ms"

primrec pad :: "nat \<Rightarrow> int \<Rightarrow> string" where
  "pad 0 n = []"
| "pad (Suc w) n = pad w (n div 10) @ [digit n]"

text \<open>Year, month and day of the proleptic Gregorian calendar from days since 1970-01-01.\<close>

definition civil :: "int \<Rightarrow> int \<times> int \<times> int" where
  "civil days =
     (let z = days + 719468;
          era = z div 146097;
          doe = z mod 146097;
          yoe = (doe - doe div 1460 + doe div 36524 - doe div 146096) div 365;
          doy = doe - (365 * yoe + yoe div 4 - yoe div 100);
          mp = (5 * doy + 2) div 153;
          d = doy - (153 * mp + 2) div 5 + 1;
          m = (if mp < 10 then mp + 3 else mp - 9);
          y = yoe + era * 400 + (if m \<le> 2 then 1 else 0)
      in (y, m, d))"

definition year_string :: "int \<Rightarrow> string" where
  "year_string y =
     (if 0 \<le> y \<and> y \<le> 9999 then pad 4 y
      else (if y < 0 then ''-'' else ''+'') @ pad 6 \<bar>y\<bar>)"

definition iso_string :: "int \<Rightarrow> string" where
  "iso_string ms =
     (let days = ms div 86400000;
          t = ms mod 86400000;
          (y, m, d) = civil days
      in year_string y @ ''-'' @ pad 2 m @ ''-'' @ pad 2 d @ ''T''
         @ pad 2 (t div 3600000) @ '':'' @ pad 2 (t div 60000 mod 60) @ '':''
         @ pad 2 (t div 1000 mod 60) @ ''.'' @ pad 3 (t mod 1000) @ ''Z'')"

fun toISOString :: "date \<Rightarrow> exn + string" where
  "toISOString None = Inl RangeError"
| "toISOString (Some ms) = Inr (iso_string ms)"

section \<open>The timestamp helper of the subscription routes\<close>

text \<open>
  The body of the \<open>try\<close> block of \<open>timestampToISOString\<close>: \<open>Inl\<close> is an exception that
  reaches the \<open>catch\<close>.
\<close>

definition convert_block :: "jsnum \<Rightarrow> exn + string option" where
  "convert_block timestamp =
     (let date = newDate (times_const timestamp 1000)
      in if isNaN (getTime date) then Inr None
         else (case toISOString date of Inl e \<Rightarrow> Inl e | Inr s \<Rightarrow> Inr (Some s)))"

text \<open>
  \<open>None\<close> is the \<open>null\<close> the helper returns. The three tests of its guard are taken in
  the order of the source; \<open>isNaN\<close> is only reached by a number.
\<close>

definition timestampToISOString :: "jsval \<Rightarrow> string option" where
  "timestampToISOString timestamp =
     (if \<not> truthy timestamp \<or> typeof timestamp \<noteq> ''number'' then None
      else (case timestamp of
              JNum n \<Rightarrow>
                if isNaN n then None
                else (case convert_block n of Inl e \<Rightarrow> None | Inr r \<Rightarrow> r)
            | _ \<Rightarrow> None))"

section \<open>The profile table and the payment provider\<close>

text \<open>
  A row of \<open>user_profiles\<close>, with the columns the subscription routes read or write;
  \<open>None\<close> is SQL \<open>null\<close>. The table is a list of rows. The world also keeps a log of
  every \<open>update\<close> sent to the table and of every call made to the provider, so that
  "no write" and "no provider mutation" can be told from a write that changes nothing.
\<close>

record profile =
  row_id :: string
  stripe_customer_id :: "string option"
  subscription_id :: "string option"
  subscription_status :: "string option"
  subscription_expires_at :: "string option"

record subscription =
  sub_id :: string
  status :: string
  customer :: string
  cancel_at_period_end :: jsval
  current_period_end :: jsval
  billing_cycle_anchor :: jsval

record setup_intent =
  payment_method :: "string option"
  intent_status :: string

record event =
  ev_type :: string
  data_object :: subscription

datatype row_filter = EqId string | EqCustomer string

type_synonym update_data = "(string \<times> string option) list"

datatype stripe_call =
    Retrieve string
  | Update string bool
  | RetrieveSetupIntent string
  | ListPaymentMethods string
  | CreateSubscription string string

record world =
  profiles :: "profile list"
  db_writes :: "(row_filter \<times> update_data) list"
  stripe_calls :: "stripe_call list"

text \<open>
  The provider SDK is outside the repository: each of its operations is a parameter that
  either throws or returns its result. \<open>paymentMethods_list\<close> gives the ids of the
  customer's cards, \<open>subscriptions_create\<close> takes the customer and the payment method.
\<close>

record provider =
  subscriptions_retrieve :: "string \<Rightarrow> exn + subscription"
  subscriptions_update :: "string \<Rightarrow> bool \<Rightarrow> exn + subscription"
  subscriptions_create :: "string \<Rightarrow> string \<Rightarrow> exn + subscription"
  setupIntents_retrieve :: "string \<Rightarrow> exn + setup_intent"
  paymentMethods_list :: "string \<Rightarrow> exn + string list"
  webhooks_constructEvent :: "string \<Rightarrow> string option \<Rightarrow> string \<Rightarrow> exn + event"

record response =
  code :: nat
  body :: "(string \<times> jsval) list"

definition json :: "(string \<times> jsval) list \<Rightarrow> response" where
  "json b = \<lparr>code = 200, body = b\<rparr>"

definition status_json :: "nat \<Rightarrow> (string \<times> jsval) list \<Rightarrow> response" where
  "status_json c b = \<lparr>code = c, body = b\<rparr>"

fun matches :: "row_filter \<Rightarrow> profile \<Rightarrow> bool" where
  "matches (EqId uid) r = (row_id r = uid)"
| "matches (EqCustomer c) r = (stripe_customer_id r = Some c)"

text \<open>\<open>.select(..).eq(..).single()\<close>: the row when exactly one matches, else no data.\<close>

definition select_single :: "row_filter \<Rightarrow> profile list \<Rightarrow> profile option" where
  "select_single flt rows = (case filter (matches flt) rows of [r] \<Rightarrow> Some r | _ \<Rightarrow> None)"

fun set_column :: "string \<times> string option \<Rightarrow> profile \<Rightarrow> profile" where
  "set_column (k, v) r =
     (if k = ''subscription_status'' then r\<lparr>subscription_status := v\<rparr>
      else if k = ''subscription_id'' then r\<lparr>subscription_id := v\<rparr>
      else if k = ''subscription_expires_at'' then r\<lparr>subscription_expires_at := v\<rparr>
      else r)"

definition apply_update :: "update_data \<Rightarrow> profile \<Rightarrow> profile" where
  "apply_update updateData r = fold set_column updateData r"

text \<open>
  \<open>.update(updateData).eq(..)\<close>: every matching row takes the listed columns. The
  routes do not act on the error an update may return; here an update always takes effect.
\<close>

definition db_update :: "row_filter \<Rightarrow> update_data \<Rightarrow> world \<Rightarrow> world" where
  "db_update flt updateData w =
     w\<lparr>profiles := map (\<lambda>r. if matches flt r then apply_update updateData r else r) (profiles w),
       db_writes := db_writes w @ [(flt, updateData)]\<rparr>"

definition call_stripe :: "stripe_call \<Rightarrow> world \<Rightarrow> world" where
  "call_stripe c w = w\<lparr>stripe_calls := stripe_calls w @ [c]\<rparr>"

text \<open>
  The guard \<open>if (!profile?.subscription_id)\<close> of the three user routes: it lets a request
  through exactly when one row was selected and its subscription id is a non-empty string.
\<close>

definition found_subscription :: "profile option \<Rightarrow> (profile \<times> string) option" where
  "found_subscription profile =
     (case profile of
        None \<Rightarrow> None
      | Some r \<Rightarrow> (case subscription_id r of
                    None \<Rightarrow> None
                  | Some sid \<Rightarrow> if sid = [] then None else Some (r, sid)))"

section \<open>Period end, expiry and status as the routes compute them\<close>

text \<open>
  The block each route repeats: \<open>if (!periodEnd && billing_cycle_anchor) periodEnd =
  billing_cycle_anchor + 30 * 24 * 60 * 60\<close>.
\<close>

definition fallback_periodEnd :: "jsval \<Rightarrow> jsval \<Rightarrow> jsval" where
  "fallback_periodEnd periodEnd billingAnchor =
     (if \<not> truthy periodEnd \<and> truthy billingAnchor
      then js_add_const billingAnchor (30 * 24 * 60 * 60) else periodEnd)"

text \<open>\<open>let expiresAt = null; if (periodEnd) expiresAt = timestampToISOString(periodEnd)\<close>.\<close>

definition guarded_expiresAt :: "jsval \<Rightarrow> string option" where
  "guarded_expiresAt periodEnd =
     (if truthy periodEnd then timestampToISOString periodEnd else None)"

text \<open>\<open>let status = 'active'; if (cancelAtPeriodEnd) status = 'active_until_period_end'\<close>.\<close>

definition active_status :: "jsval \<Rightarrow> string" where
  "active_status cancelAtPeriodEnd =
     (if truthy cancelAtPeriodEnd then ''active_until_period_end'' else ''active'')"

definition nullable :: "string option \<Rightarrow> jsval" where
  "nullable x = (case x of None \<Rightarrow> JNull | Some s \<Rightarrow> JStr s)"

section \<open>GET /status\<close>

definition status_updateData :: "profile \<Rightarrow> string \<Rightarrow> string option \<Rightarrow> update_data" where
  "status_updateData profile status' expiresAt =
     [(''subscription_status'', Some status')]
     @ (case expiresAt of
          None \<Rightarrow> []
        | Some e \<Rightarrow>
            if e \<noteq> [] \<and> Some e \<noteq> subscription_expires_at profile
            then [(''subscription_expires_at'', Some e)] else [])"

definition status_active ::
  "string \<Rightarrow> profile \<Rightarrow> subscription \<Rightarrow> world \<Rightarrow> response \<times> world" where
  "status_active uid profile sub w =
     (let periodEnd = fallback_periodEnd (current_period_end sub) (billing_cycle_anchor sub);
          cancelAtPeriodEnd = cancel_at_period_end sub;
          expiresAt = guarded_expiresAt periodEnd;
          status' = active_status cancelAtPeriodEnd;
          updateData = status_updateData profile status' expiresAt;
          w' = (if length updateData > 1 \<or> Some status' \<noteq> subscription_status profile
                then db_update (EqId uid) updateData w else w)
      in (json [(''status'', JStr status'),
                (''current_period_end'', periodEnd),
                (''cancel_at_period_end'', cancelAtPeriodEnd),
                (''expires_at'', nullable expiresAt),
                (''will_renew'', JBool (\<not> truthy cancelAtPeriodEnd))], w'))"

definition status_not_active :: "string \<Rightarrow> world \<Rightarrow> response \<times> world" where
  "status_not_active uid w =
     (json [(''status'', JStr ''inactive'')],
      db_update (EqId uid)
        [(''subscription_status'', Some ''inactive''),
         (''subscription_id'', None),
         (''subscription_expires_at'', None)] w)"

definition get_status :: "provider \<Rightarrow> string \<Rightarrow> world \<Rightarrow> response \<times> world" where
  "get_status stripe uid w =
     (case found_subscription (select_single (EqId uid) (profiles w)) of
           None \<Rightarrow> (json [(''status'', JStr ''inactive'')], w)
         | Some (profile, sid) \<Rightarrow>
             (let w1 = call_stripe (Retrieve sid) w
              in case subscriptions_retrieve stripe sid of
                   Inl e \<Rightarrow>
                     (status_json 500 [(''error'', JStr ''Failed to get subscription status'')], w1)
                 | Inr sub \<Rightarrow>
                     if status sub = ''active''
                     then status_active uid profile sub w1
                     else status_not_active uid w1))"

section \<open>POST /create\<close>

record create_body =
  customer_id :: "string option"
  setup_intent_id :: "string option"

text \<open>A string that may be missing, when it is truthy: present and not empty.\<close>

definition given :: "string option \<Rightarrow> string option" where
  "given x = (case x of None \<Rightarrow> None | Some s \<Rightarrow> if s = [] then None else Some s)"

text \<open>
  The payment method of the request: the one of a succeeded setup intent, else the
  customer's first card. A provider call that throws ends the search.
\<close>

definition from_setup_intent ::
  "provider \<Rightarrow> string option \<Rightarrow> world \<Rightarrow> (exn + string option) \<times> world" where
  "from_setup_intent stripe setup_intent w =
     (case given setup_intent of
        None \<Rightarrow> (Inr None, w)
      | Some sid \<Rightarrow>
          (case setupIntents_retrieve stripe sid of
             Inl e \<Rightarrow> (Inl e, call_stripe (RetrieveSetupIntent sid) w)
           | Inr setupIntent \<Rightarrow>
               (Inr (if given (payment_method setupIntent) \<noteq> None
                        \<and> intent_status setupIntent = ''succeeded''
                     then payment_method setupIntent else None),
                call_stripe (RetrieveSetupIntent sid) w)))"

definition from_payment_methods ::
  "provider \<Rightarrow> string \<Rightarrow> string option \<Rightarrow> world \<Rightarrow> (exn + string option) \<times> world" where
  "from_payment_methods stripe cid defaultPaymentMethod w =
     (case given defaultPaymentMethod of
        Some pm \<Rightarrow> (Inr defaultPaymentMethod, w)
      | None \<Rightarrow>
          (case paymentMethods_list stripe cid of
             Inl e \<Rightarrow> (Inl e, call_stripe (ListPaymentMethods cid) w)
           | Inr data \<Rightarrow>
               (Inr (case data of [] \<Rightarrow> defaultPaymentMethod | pm # rest \<Rightarrow> Some pm),
                call_stripe (ListPaymentMethods cid) w)))"

definition create_updateData :: "subscription \<Rightarrow> string option \<Rightarrow> update_data" where
  "create_updateData sub expiresAt =
     [(''subscription_id'', Some (sub_id sub)), (''subscription_status'', Some (status sub))]
     @ (case given expiresAt of
          None \<Rightarrow> []
        | Some e \<Rightarrow> [(''subscription_expires_at'', Some e)])"

text \<open>The route after \<open>stripe.subscriptions.create\<close> has returned.\<close>

definition created :: "string \<Rightarrow> subscription \<Rightarrow> world \<Rightarrow> response \<times> world" where
  "created uid sub w =
     (if status sub = ''active''
      then (let periodEnd = fallback_periodEnd (current_period_end sub) (billing_cycle_anchor sub);
                expiresAt = guarded_expiresAt periodEnd
            in (json [(''subscription_id'', JStr (sub_id sub)),
                      (''status'', JStr (status sub)),
                      (''current_period_end'', periodEnd),
                      (''expires_at'', nullable expiresAt)],
                db_update (EqId uid) (create_updateData sub expiresAt) w))
      else (status_json 400 [(''error'', JStr ''Subscription creation failed'')], w))"

definition create_failed :: response where
  "create_failed = status_json 500 [(''error'', JStr ''Failed to create subscription'')]"

definition post_create :: "provider \<Rightarrow> string \<Rightarrow> create_body \<Rightarrow> world \<Rightarrow> response \<times> world" where
  "post_create stripe uid req_body w =
     (case given (customer_id req_body) of
        None \<Rightarrow> (status_json 400 [(''error'', JStr ''customer_id is required'')], w)
      | Some cid \<Rightarrow>
          (case from_setup_intent stripe (setup_intent_id req_body) w of
             (Inl e, w1) \<Rightarrow> (create_failed, w1)
           | (Inr pm1, w1) \<Rightarrow>
               (case from_payment_methods stripe cid pm1 w1 of
                  (Inl e, w2) \<Rightarrow> (create_failed, w2)
                | (Inr pm2, w2) \<Rightarrow>
                    (case given pm2 of
                       None \<Rightarrow> (status_json 400 [(''error'', JStr ''No payment method found'')], w2)
                     | Some pm \<Rightarrow>
                         (case subscriptions_create stripe cid pm of
                            Inl e \<Rightarrow> (create_failed, call_stripe (CreateSubscription cid pm) w2)
                          | Inr sub \<Rightarrow>
                              created uid sub (call_stripe (CreateSubscription cid pm) w2))))))"

section \<open>POST /cancel and POST /reactivate\<close>

definition post_cancel :: "provider \<Rightarrow> string \<Rightarrow> world \<Rightarrow> response \<times> world" where
  "post_cancel stripe uid w =
     (case found_subscription (select_single (EqId uid) (profiles w)) of
           None \<Rightarrow> (status_json 404 [(''error'', JStr ''No active subscription found'')], w)
         | Some (profile, sid) \<Rightarrow>
             (let w1 = call_stripe (Update sid True) w
              in case subscriptions_update stripe sid True of
                   Inl e \<Rightarrow> (status_json 500 [(''error'', JStr ''Failed to cancel subscription'')], w1)
                 | Inr sub \<Rightarrow>
                     (let w2 = db_update (EqId uid)
                                 [(''subscription_status'', Some ''active_until_period_end'')] w1;
                          periodEnd = fallback_periodEnd (current_period_end sub)
                                        (billing_cycle_anchor sub);
                          periodEndDate = guarded_expiresAt periodEnd
                      in (json [(''message'', JStr ''Subscription cancelled - access until period end''),
                                (''cancel_at_period_end'', JBool True),
                                (''current_period_end'', periodEnd),
                                (''access_until'', nullable periodEndDate),
                                (''status'', JStr ''active_until_period_end'')], w2))))"

definition post_reactivate :: "provider \<Rightarrow> string \<Rightarrow> world \<Rightarrow> response \<times> world" where
  "post_reactivate stripe uid w =
     (case found_subscription (select_single (EqId uid) (profiles w)) of
           None \<Rightarrow> (status_json 404 [(''error'', JStr ''No subscription found'')], w)
         | Some (profile, sid) \<Rightarrow>
             (let w1 = call_stripe (Update sid False) w
              in case subscriptions_update stripe sid False of
                   Inl e \<Rightarrow>
                     (status_json 500 [(''error'', JStr ''Failed to reactivate subscription'')], w1)
                 | Inr sub \<Rightarrow>
                     (json [(''message'', JStr ''Subscription reactivated successfully''),
                            (''status'', JStr ''active''),
                            (''will_renew'', JBool True)],
                      db_update (EqId uid) [(''subscription_status'', Some ''active'')] w1)))"

section \<open>POST /webhook\<close>

record webhook_request =
  raw_body :: string
  stripe_signature :: "string option"

definition webhook_updateData :: "subscription \<Rightarrow> update_data" where
  "webhook_updateData eventObject =
     (let updatedPeriodEnd = fallback_periodEnd (current_period_end eventObject)
                               (billing_cycle_anchor eventObject);
          cancelAtPeriodEnd = cancel_at_period_end eventObject;
          updatedExpiresAt = timestampToISOString updatedPeriodEnd;
          status' = active_status cancelAtPeriodEnd
      in [(''subscription_status'', Some status')]
         @ (case updatedExpiresAt of
              None \<Rightarrow> []
            | Some e \<Rightarrow> if e \<noteq> [] then [(''subscription_expires_at'', Some e)] else []))"

text \<open>The \<open>switch\<close> on the type of a verified event.\<close>

definition handle_event :: "event \<Rightarrow> world \<Rightarrow> world" where
  "handle_event ev w =
     (let eventObject = data_object ev
      in if ev_type ev = ''customer.subscription.deleted''
         then db_update (EqCustomer (customer eventObject))
                [(''subscription_status'', Some ''cancelled''),
                 (''subscription_id'', None),
                 (''subscription_expires_at'', None)] w
         else if ev_type ev = ''customer.subscription.updated''
         then (if status eventObject = ''active''
               then db_update (EqCustomer (customer eventObject))
                      (webhook_updateData eventObject) w
               else w)
         else w)"

definition post_webhook ::
  "provider \<Rightarrow> string \<Rightarrow> webhook_request \<Rightarrow> world \<Rightarrow> response \<times> world" where
  "post_webhook stripe secret req w =
     (case webhooks_constructEvent stripe (raw_body req) (stripe_signature req) secret of
        Inl e \<Rightarrow> (status_json 400 [(''error'', JStr ''Webhook signature verification failed'')], w)
      | Inr ev \<Rightarrow> (json [(''received'', JBool True)], handle_event ev w))"

section \<open>Sample data\<close>

text \<open>
  One user with an active subscription, and a provider that knows the subscription
  \<open>sub_1\<close> and accepts a webhook whose signature header equals the secret; the body of
  a sample delivery is read as the event type.
\<close>

definition demo_profile :: profile where
  "demo_profile =
     \<lparr>row_id = ''u1'', stripe_customer_id = Some ''cus_1'', subscription_id = Some ''sub_1'',
      subscription_status = Some ''active'',
      subscription_expires_at = Some ''2023-11-14T22:13:20.000Z''\<rparr>"

definition demo_world :: world where
  "demo_world = \<lparr>profiles = [demo_profile], db_writes = [], stripe_calls = []\<rparr>"

definition demo_sub :: subscription where
  "demo_sub =
     \<lparr>sub_id = ''sub_1'', status = ''active'', customer = ''cus_1'',
      cancel_at_period_end = JBool False,
      current_period_end = JNum (Fin 1700000000),
      billing_cycle_anchor = JNum (Fin 1697408000)\<rparr>"

definition demo_provider :: "subscription \<Rightarrow> provider" where
  "demo_provider sub =
     \<lparr>subscriptions_retrieve =
        (\<lambda>sid. if sid = ''sub_1'' then Inr sub else Inl (Thrown ''No such subscription'')),
      subscriptions_update =
        (\<lambda>sid flag. if sid = ''sub_1'' then Inr (sub\<lparr>cancel_at_period_end := JBool flag\<rparr>)
                     else Inl (Thrown ''No such subscription'')),
      subscriptions_create = (\<lambda>cid pm. Inr sub),
      setupIntents_retrieve = (\<lambda>sid. Inl (Thrown ''No such setupintent'')),
      paymentMethods_list = (\<lambda>cid. Inr [''pm_1'']),
      webhooks_constructEvent =
        (\<lambda>payload sig secret.
           if sig = Some secret then Inr \<lparr>ev_type = payload, data_object = sub\<rparr>
           else Inl (Thrown ''No signatures found matching the expected signature''))\<rparr>"

definition demo_request :: "string \<Rightarrow> webhook_request" where
  "demo_request payload = \<lparr>raw_body = payload, stripe_signature = Some ''whsec''\<rparr>"

definition unsigned_request :: webhook_request where
  "unsigned_request = \<lparr>raw_body = ''customer.subscription.deleted'', stripe_signature = None\<rparr>"

text \<open>Snapshots without the primary period end, with a zero one, with none, and lapsed.\<close>

definition anchor_sub :: subscription where
  "anchor_sub = demo_sub\<lparr>current_period_end := JUndefined\<rparr>"

definition zero_end_sub :: subscription where
  "zero_end_sub = demo_sub\<lparr>current_period_end := JNum (Fin 0)\<rparr>"

definition no_end_sub :: subscription where
  "no_end_sub = demo_sub\<lparr>current_period_end := JUndefined, billing_cycle_anchor := JNull\<rparr>"

definition lapsed_sub :: subscription where
  "lapsed_sub = demo_sub\<lparr>status := ''canceled''\<rparr>"

text \<open>The sample user with a cancellation already scheduled, and before any subscription.\<close>

definition scheduled_world :: world where
  "scheduled_world =
     demo_world\<lparr>profiles := [demo_profile\<lparr>subscription_status := Some ''active_until_period_end''\<rparr>]\<rparr>"

definition fresh_world :: world where
  "fresh_world =
     demo_world\<lparr>profiles := [demo_profile\<lparr>subscription_id := None,
                                subscription_status := None, subscription_expires_at := None\<rparr>]\<rparr>"

text \<open>The world after one delivery of an update event for the sample subscription.\<close>

definition delivered_once :: world where
  "delivered_once =
     snd (post_webhook (demo_provider demo_sub) ''whsec''
            (demo_request ''customer.subscription.updated'') demo_world)"

text \<open>A field of a JSON response.\<close>

definition field :: "response \<Rightarrow> string \<Rightarrow> jsval option" where
  "field r k = map_of (body r) k"

section \<open>Doubles\<close>

declare ulp.simps [simp del]

lemma ulp_small: "0 \<le> m \<Longrightarrow> m < 9007199254740992 \<Longrightarrow> ulp 1 m = 1"
  by (subst ulp.simps) simp

lemma round_even_exact: "0 \<le> m \<Longrightarrow> m < 9007199254740992 \<Longrightarrow> round_even m = m"
  by (simp add: round_even_def ulp_small)

lemma to_double_exact: "\<bar>n\<bar> < 9007199254740992 \<Longrightarrow> to_double n = Fin n"
  by (auto simp: to_double_def round_even_exact Let_def)

text \<open>Beyond \<open>2 ^ 53\<close> a sum is rounded: thirty days added to \<open>2 ^ 62\<close> seconds.\<close>

lemma plus_const_rounds:
  "plus_const (Fin 4611686018427387904) 2592000 = Fin 4611686018429979648"
  by code_simp

section \<open>The timestamp helper\<close>

lemma convert_block_Fin:
  "\<bar>t * 1000\<bar> \<le> maxTime \<Longrightarrow> convert_block (Fin t) = Inr (Some (iso_string (t * 1000)))"
  by (simp add: convert_block_def maxTime_def to_double_exact)

lemma convert_block_no_throw: "convert_block n \<noteq> Inl e"
  by (cases n; cases "newDate (times_const n 1000)") (simp_all add: convert_block_def)

lemma iso_string_sample: "iso_string 1700000000000 = ''2023-11-14T22:13:20.000Z''"
  by code_simp

lemma timestamp_sample:
  "timestampToISOString (JNum (Fin 1700000000)) = Some ''2023-11-14T22:13:20.000Z''"
  by (simp add: timestampToISOString_def convert_block_Fin maxTime_def iso_string_sample)

lemma timestamp_falsy: "\<not> truthy c \<Longrightarrow> timestampToISOString c = None"
  by (simp add: timestampToISOString_def)

lemma guarded_expiresAt_eq: "guarded_expiresAt v = timestampToISOString v"
  by (simp add: guarded_expiresAt_def timestampToISOString_def)

text \<open>
  Claim C7. The helper returns \<open>null\<close> for \<open>null\<close>, \<open>undefined\<close>, a value that is not a
  number, \<open>NaN\<close>, zero, and a number whose \<open>Date\<close> is invalid; its \<open>try\<close> block never
  throws, so the \<open>catch\<close> is never entered; and for every other epoch-seconds value it
  returns the ISO-8601 string of that instant.
\<close>

theorem timestampToISOString_contained:
  "(v = JNull \<or> v = JUndefined \<or> typeof v \<noteq> ''number'' \<or> v = JNum NaN \<or> v = JNum (Fin 0)
      \<or> (\<exists>n. v = JNum n \<and> newDate (times_const n 1000) = None)
     \<longrightarrow> timestampToISOString v = None)
   \<and> (\<forall>n e. convert_block n \<noteq> Inl e)
   \<and> (t \<noteq> 0 \<and> \<bar>t * 1000\<bar> \<le> maxTime
     \<longrightarrow> timestampToISOString (JNum (Fin t)) = Some (iso_string (t * 1000)))"
proof (intro conjI impI allI)
  assume a: "v = JNull \<or> v = JUndefined \<or> typeof v \<noteq> ''number'' \<or> v = JNum NaN
      \<or> v = JNum (Fin 0) \<or> (\<exists>n. v = JNum n \<and> newDate (times_const n 1000) = None)"
  show "timestampToISOString v = None"
  proof (cases v)
    case (JNum n)
    show ?thesis
    proof (cases "truthy v \<and> \<not> isNaN n")
      case True
      then have "v \<noteq> JNum NaN" "v \<noteq> JNum (Fin 0)" using JNum by auto
      with a JNum have "newDate (times_const n 1000) = None" by auto
      then show ?thesis using JNum by (simp add: timestampToISOString_def convert_block_def)
    next
      case False
      then show ?thesis using JNum by (auto simp: timestampToISOString_def)
    qed
  qed (simp_all add: timestampToISOString_def)
next
  fix n e show "convert_block n \<noteq> Inl e" by (rule convert_block_no_throw)
next
  assume "t \<noteq> 0 \<and> \<bar>t * 1000\<bar> \<le> maxTime"
  then show "timestampToISOString (JNum (Fin t)) = Some (iso_string (t * 1000))"
    by (simp add: timestampToISOString_def convert_block_Fin)
qed

theorem timestampToISOString_contained_witness:
  "timestampToISOString (JNum (Fin 0)) = None
   \<and> timestampToISOString (JNum (Fin 1700000000)) = Some ''2023-11-14T22:13:20.000Z''"
  using timestampToISOString_contained [of "JNum (Fin 0)" 1700000000] iso_string_sample
  by (simp add: maxTime_def)

section \<open>Rows, updates and the guard of the user routes\<close>

lemma found_subscriptionD:
  "found_subscription x = Some (p, sid) \<Longrightarrow>
   x = Some p \<and> subscription_id p = Some sid \<and> sid \<noteq> []"
  by (auto simp: found_subscription_def split: option.splits if_splits)

lemma select_singleD: "select_single flt rows = Some p \<Longrightarrow> filter (matches flt) rows = [p]"
  by (auto simp: select_single_def split: list.splits)

lemma set_column_keys:
  "row_id (set_column kv r) = row_id r
   \<and> stripe_customer_id (set_column kv r) = stripe_customer_id r"
  by (cases kv) simp

lemma apply_update_keys:
  "row_id (apply_update u r) = row_id r
   \<and> stripe_customer_id (apply_update u r) = stripe_customer_id r"
  unfolding apply_update_def
  by (induction u arbitrary: r) (simp_all add: set_column_keys)

lemma matches_apply_update: "matches flt (apply_update u r) = matches flt r"
  by (cases flt) (simp_all add: apply_update_keys)

lemma filter_db_update:
  "filter (matches flt') (profiles (db_update flt u w)) =
     map (\<lambda>r. if matches flt r then apply_update u r else r) (filter (matches flt') (profiles w))"
proof -
  have "(matches flt' \<circ> (\<lambda>r. if matches flt r then apply_update u r else r)) = matches flt'"
    by (rule ext) (simp add: matches_apply_update)
  then show ?thesis by (simp add: db_update_def filter_map)
qed

lemma select_single_db_update:
  assumes "select_single flt (profiles w) = Some p"
  shows "select_single flt (profiles (db_update flt u w)) = Some (apply_update u p)"
proof -
  have f: "filter (matches flt) (profiles w) = [p]" using assms by (rule select_singleD)
  then have "p \<in> set (filter (matches flt) (profiles w))" by simp
  then have m: "matches flt p" by simp
  show ?thesis unfolding select_single_def filter_db_update f using m by simp
qed

lemma profiles_call_stripe [simp]: "profiles (call_stripe c w) = profiles w"
  by (simp add: call_stripe_def)

lemma db_writes_call_stripe [simp]: "db_writes (call_stripe c w) = db_writes w"
  by (simp add: call_stripe_def)

lemma apply_update_status [simp]:
  "apply_update [(''subscription_status'', s)] r = r\<lparr>subscription_status := s\<rparr>"
  by (simp add: apply_update_def)

lemma apply_update_status_expires [simp]:
  "apply_update [(''subscription_status'', s), (''subscription_expires_at'', e)] r =
     r\<lparr>subscription_status := s, subscription_expires_at := e\<rparr>"
  by (simp add: apply_update_def)

lemma apply_update_clear [simp]:
  "apply_update [(''subscription_status'', s), (''subscription_id'', i),
                 (''subscription_expires_at'', e)] r =
     r\<lparr>subscription_status := s, subscription_id := i, subscription_expires_at := e\<rparr>"
  by (simp add: apply_update_def)

lemma demo_found:
  "found_subscription (select_single (EqId ''u1'') (profiles demo_world)) =
     Some (demo_profile, ''sub_1'')"
  by (simp add: found_subscription_def select_single_def demo_world_def demo_profile_def)

section \<open>The status poll\<close>

lemma get_status_active:
  "found_subscription (select_single (EqId uid) (profiles w)) = Some (p, sid) \<Longrightarrow>
   subscriptions_retrieve stripe sid = Inr sub \<Longrightarrow> status sub = ''active'' \<Longrightarrow>
   get_status stripe uid w = status_active uid p sub (call_stripe (Retrieve sid) w)"
  by (simp add: get_status_def)

lemma get_status_not_active:
  "found_subscription (select_single (EqId uid) (profiles w)) = Some (p, sid) \<Longrightarrow>
   subscriptions_retrieve stripe sid = Inr sub \<Longrightarrow> status sub \<noteq> ''active'' \<Longrightarrow>
   get_status stripe uid w = status_not_active uid (call_stripe (Retrieve sid) w)"
  by (simp add: get_status_def)

lemma post_cancel_ok:
  "found_subscription (select_single (EqId uid) (profiles w)) = Some (p, sid) \<Longrightarrow>
   subscriptions_update stripe sid True = Inr sub \<Longrightarrow>
   fst (post_cancel stripe uid w) =
     json [(''message'', JStr ''Subscription cancelled - access until period end''),
           (''cancel_at_period_end'', JBool True),
           (''current_period_end'',
              fallback_periodEnd (current_period_end sub) (billing_cycle_anchor sub)),
           (''access_until'', nullable (guarded_expiresAt
               (fallback_periodEnd (current_period_end sub) (billing_cycle_anchor sub)))),
           (''status'', JStr ''active_until_period_end'')]"
  by (simp add: post_cancel_def Let_def)

lemma fallback_truthy: "truthy c \<Longrightarrow> fallback_periodEnd c b = c"
  by (simp add: fallback_periodEnd_def)

lemma fallback_anchor:
  "\<not> truthy c \<Longrightarrow> T \<noteq> 0 \<Longrightarrow> \<bar>T\<bar> < 2 ^ 53 - 2592000 \<Longrightarrow>
   fallback_periodEnd c (JNum (Fin T)) = JNum (Fin (T + 2592000))"
  by (simp add: fallback_periodEnd_def to_double_exact)

lemma fallback_none: "\<not> truthy c \<Longrightarrow> \<not> truthy b \<Longrightarrow> fallback_periodEnd c b = c"
  by (simp add: fallback_periodEnd_def)

text \<open>
  Claim C3, as the code has it. In the responses of the status poll and of the
  cancellation: a truthy \<open>current_period_end\<close> is the period end, and the expiry is its
  conversion; when \<open>current_period_end\<close> is falsy (absent, \<open>null\<close>, zero, \<open>NaN\<close>) and the
  billing cycle anchor is a non-zero number \<open>T\<close> of magnitude below \<open>2 ^ 53 - 2592000\<close>,
  where the sum of doubles is exact, the period end is \<open>T + 2592000\<close>; when both are
  falsy the period end is \<open>current_period_end\<close> as received and the expiry is \<open>null\<close>.
\<close>

theorem period_end_resolved:
  assumes "found_subscription (select_single (EqId uid) (profiles w)) = Some (p, sid)"
  shows "(subscriptions_retrieve stripe sid = Inr sub \<and> status sub = ''active'' \<longrightarrow>
           (let r = fst (get_status stripe uid w);
                c = current_period_end sub; b = billing_cycle_anchor sub
            in (truthy c \<longrightarrow> field r ''current_period_end'' = Some c
                  \<and> field r ''expires_at'' = Some (nullable (timestampToISOString c)))
             \<and> (\<forall>T. \<not> truthy c \<and> b = JNum (Fin T) \<and> T \<noteq> 0
                  \<and> \<bar>T\<bar> < 2 ^ 53 - 2592000 \<longrightarrow>
                  field r ''current_period_end'' = Some (JNum (Fin (T + 2592000)))
                  \<and> field r ''expires_at'' =
                      Some (nullable (timestampToISOString (JNum (Fin (T + 2592000))))))
             \<and> (\<not> truthy c \<and> \<not> truthy b \<longrightarrow>
                  field r ''current_period_end'' = Some c \<and> field r ''expires_at'' = Some JNull)))
       \<and> (subscriptions_update stripe sid True = Inr sub \<longrightarrow>
           (let r = fst (post_cancel stripe uid w);
                c = current_period_end sub; b = billing_cycle_anchor sub
            in (truthy c \<longrightarrow> field r ''current_period_end'' = Some c
                  \<and> field r ''access_until'' = Some (nullable (timestampToISOString c)))
             \<and> (\<forall>T. \<not> truthy c \<and> b = JNum (Fin T) \<and> T \<noteq> 0
                  \<and> \<bar>T\<bar> < 2 ^ 53 - 2592000 \<longrightarrow>
                  field r ''current_period_end'' = Some (JNum (Fin (T + 2592000)))
                  \<and> field r ''access_until'' =
                      Some (nullable (timestampToISOString (JNum (Fin (T + 2592000))))))
             \<and> (\<not> truthy c \<and> \<not> truthy b \<longrightarrow>
                  field r ''current_period_end'' = Some c
                  \<and> field r ''access_until'' = Some JNull)))"
proof (rule conjI; rule impI)
  assume a: "subscriptions_retrieve stripe sid = Inr sub \<and> status sub = ''active''"
  have r: "fst (get_status stripe uid w) =
    json [(''status'', JStr (active_status (cancel_at_period_end sub))),
          (''current_period_end'',
             fallback_periodEnd (current_period_end sub) (billing_cycle_anchor sub)),
          (''cancel_at_period_end'', cancel_at_period_end sub),
          (''expires_at'', nullable (guarded_expiresAt
             (fallback_periodEnd (current_period_end sub) (billing_cycle_anchor sub)))),
          (''will_renew'', JBool (\<not> truthy (cancel_at_period_end sub)))]"
    using get_status_active [OF assms, of stripe sub] a by (simp add: status_active_def Let_def)
  show "let r = fst (get_status stripe uid w);
            c = current_period_end sub; b = billing_cycle_anchor sub
        in (truthy c \<longrightarrow> field r ''current_period_end'' = Some c
              \<and> field r ''expires_at'' = Some (nullable (timestampToISOString c)))
         \<and> (\<forall>T. \<not> truthy c \<and> b = JNum (Fin T) \<and> T \<noteq> 0
                  \<and> \<bar>T\<bar> < 2 ^ 53 - 2592000 \<longrightarrow>
              field r ''current_period_end'' = Some (JNum (Fin (T + 2592000)))
              \<and> field r ''expires_at'' =
                  Some (nullable (timestampToISOString (JNum (Fin (T + 2592000))))))
         \<and> (\<not> truthy c \<and> \<not> truthy b \<longrightarrow>
              field r ''current_period_end'' = Some c \<and> field r ''expires_at'' = Some JNull)"
    unfolding Let_def r
    by (auto simp: field_def json_def guarded_expiresAt_eq fallback_truthy fallback_anchor
          fallback_none timestamp_falsy nullable_def)
next
  assume a: "subscriptions_update stripe sid True = Inr sub"
  show "let r = fst (post_cancel stripe uid w);
            c = current_period_end sub; b = billing_cycle_anchor sub
        in (truthy c \<longrightarrow> field r ''current_period_end'' = Some c
              \<and> field r ''access_until'' = Some (nullable (timestampToISOString c)))
         \<and> (\<forall>T. \<not> truthy c \<and> b = JNum (Fin T) \<and> T \<noteq> 0
                  \<and> \<bar>T\<bar> < 2 ^ 53 - 2592000 \<longrightarrow>
              field r ''current_period_end'' = Some (JNum (Fin (T + 2592000)))
              \<and> field r ''access_until'' =
                  Some (nullable (timestampToISOString (JNum (Fin (T + 2592000))))))
         \<and> (\<not> truthy c \<and> \<not> truthy b \<longrightarrow>
              field r ''current_period_end'' = Some c \<and> field r ''access_until'' = Some JNull)"
    unfolding Let_def post_cancel_ok [OF assms a]
    by (auto simp: field_def json_def guarded_expiresAt_eq fallback_truthy fallback_anchor
          fallback_none timestamp_falsy nullable_def)
qed

theorem period_end_resolved_witness:
  "field (fst (get_status (demo_provider demo_sub) ''u1'' demo_world)) ''current_period_end''
     = Some (JNum (Fin 1700000000))
   \<and> field (fst (get_status (demo_provider demo_sub) ''u1'' demo_world)) ''expires_at''
     = Some (JStr ''2023-11-14T22:13:20.000Z'')
   \<and> field (fst (get_status (demo_provider anchor_sub) ''u1'' demo_world)) ''current_period_end''
     = Some (JNum (Fin (1697408000 + 2592000)))
   \<and> field (fst (post_cancel (demo_provider no_end_sub) ''u1'' demo_world)) ''access_until''
     = Some JNull"
proof -
  have r1: "subscriptions_retrieve (demo_provider demo_sub) ''sub_1'' = Inr demo_sub \<and>
            status demo_sub = ''active''"
    by (simp add: demo_provider_def demo_sub_def)
  have r2: "subscriptions_retrieve (demo_provider anchor_sub) ''sub_1'' = Inr anchor_sub \<and>
            status anchor_sub = ''active''"
    by (simp add: demo_provider_def anchor_sub_def demo_sub_def)
  have r3: "subscriptions_update (demo_provider no_end_sub) ''sub_1'' True =
            Inr (no_end_sub\<lparr>cancel_at_period_end := JBool True\<rparr>)"
    by (simp add: demo_provider_def)
  show ?thesis
    using period_end_resolved [OF demo_found, of "demo_provider demo_sub" demo_sub] r1
      period_end_resolved [OF demo_found, of "demo_provider anchor_sub" anchor_sub] r2
      period_end_resolved [OF demo_found, of "demo_provider no_end_sub"
        "no_end_sub\<lparr>cancel_at_period_end := JBool True\<rparr>"] r3
      timestamp_sample
    by (simp add: Let_def demo_sub_def anchor_sub_def no_end_sub_def nullable_def)
qed

text \<open>
  Claim C3 as it is written fails for a period end that is present and zero: the status
  poll answers with the estimate from the billing cycle anchor, not with the zero.
\<close>

theorem period_end_zero_counterexample:
  "current_period_end zero_end_sub = JNum (Fin 0)
   \<and> field (fst (get_status (demo_provider zero_end_sub) ''u1'' demo_world)) ''current_period_end''
       = Some (JNum (Fin 1700000000))"
  by (simp add: zero_end_sub_def demo_sub_def get_status_def demo_found demo_provider_def
        status_active_def fallback_periodEnd_def to_double_exact field_def json_def Let_def)

lemma status_updateData_cases:
  "status_updateData p s e = [(''subscription_status'', Some s)] \<and>
     (e = None \<or> e = Some [] \<or> e = subscription_expires_at p)
   \<or> (\<exists>x. e = Some x \<and> x \<noteq> [] \<and> Some x \<noteq> subscription_expires_at p \<and>
        status_updateData p s e =
          [(''subscription_status'', Some s), (''subscription_expires_at'', Some x)])"
  by (cases e) (auto simp: status_updateData_def)

lemma status_active_stored:
  assumes "select_single (EqId uid) (profiles w) = Some p"
  shows "map_option subscription_status
           (select_single (EqId uid) (profiles (snd (status_active uid p sub w)))) =
         Some (Some (active_status (cancel_at_period_end sub)))"
  using status_updateData_cases [of p "active_status (cancel_at_period_end sub)"
      "guarded_expiresAt (fallback_periodEnd (current_period_end sub) (billing_cycle_anchor sub))"]
    assms select_single_db_update [OF assms]
  by (auto simp: status_active_def Let_def)

lemma status_active_field:
  "field (fst (status_active uid p sub w)) ''status'' =
     Some (JStr (active_status (cancel_at_period_end sub)))"
  by (simp add: status_active_def Let_def field_def json_def)

text \<open>
  Claim C4. When the status poll reads a snapshot from the provider, the status it
  answers with and the status it leaves stored for the user are \<open>active\<close> for an active
  snapshot without the cancellation flag, \<open>active_until_period_end\<close> for an active
  snapshot with the flag, and \<open>inactive\<close> for every raw status other than \<open>active\<close>.
\<close>

theorem status_classified:
  assumes "found_subscription (select_single (EqId uid) (profiles w)) = Some (p, sid)"
    and "subscriptions_retrieve stripe sid = Inr sub"
  shows "(status sub = ''active'' \<and> cancel_at_period_end sub = JBool False \<longrightarrow>
            field (fst (get_status stripe uid w)) ''status'' = Some (JStr ''active'')
            \<and> map_option subscription_status
                (select_single (EqId uid) (profiles (snd (get_status stripe uid w)))) =
                Some (Some ''active''))
       \<and> (status sub = ''active'' \<and> cancel_at_period_end sub = JBool True \<longrightarrow>
            field (fst (get_status stripe uid w)) ''status'' =
              Some (JStr ''active_until_period_end'')
            \<and> map_option subscription_status
                (select_single (EqId uid) (profiles (snd (get_status stripe uid w)))) =
                Some (Some ''active_until_period_end''))
       \<and> (status sub \<noteq> ''active'' \<longrightarrow>
            field (fst (get_status stripe uid w)) ''status'' = Some (JStr ''inactive'')
            \<and> map_option subscription_status
                (select_single (EqId uid) (profiles (snd (get_status stripe uid w)))) =
                Some (Some ''inactive''))"
proof -
  have sel: "select_single (EqId uid) (profiles (call_stripe (Retrieve sid) w)) = Some p"
    using found_subscriptionD [OF assms(1)] by simp
  have act: "status sub = ''active'' \<Longrightarrow>
      field (fst (get_status stripe uid w)) ''status'' =
        Some (JStr (active_status (cancel_at_period_end sub)))
      \<and> map_option subscription_status
          (select_single (EqId uid) (profiles (snd (get_status stripe uid w)))) =
          Some (Some (active_status (cancel_at_period_end sub)))"
    using get_status_active [OF assms] status_active_stored [OF sel] status_active_field
    by simp
  have nact: "status sub \<noteq> ''active'' \<Longrightarrow>
      field (fst (get_status stripe uid w)) ''status'' = Some (JStr ''inactive'')
      \<and> map_option subscription_status
          (select_single (EqId uid) (profiles (snd (get_status stripe uid w)))) =
          Some (Some ''inactive'')"
    using get_status_not_active [OF assms] select_single_db_update [OF sel]
    by (simp add: status_not_active_def field_def json_def)
  show ?thesis using act nact by (auto simp: active_status_def)
qed

theorem status_classified_witness:
  "field (fst (get_status (demo_provider demo_sub) ''u1'' demo_world)) ''status''
     = Some (JStr ''active'')
   \<and> field (fst (get_status (demo_provider (demo_sub\<lparr>cancel_at_period_end := JBool True\<rparr>))
        ''u1'' demo_world)) ''status'' = Some (JStr ''active_until_period_end'')
   \<and> map_option subscription_status (select_single (EqId ''u1'')
        (profiles (snd (get_status (demo_provider lapsed_sub) ''u1'' demo_world))))
     = Some (Some ''inactive'')"
proof -
  have r1: "subscriptions_retrieve (demo_provider demo_sub) ''sub_1'' = Inr demo_sub"
    by (simp add: demo_provider_def)
  have r2: "subscriptions_retrieve (demo_provider (demo_sub\<lparr>cancel_at_period_end := JBool True\<rparr>))
              ''sub_1'' = Inr (demo_sub\<lparr>cancel_at_period_end := JBool True\<rparr>)"
    by (simp add: demo_provider_def)
  have r3: "subscriptions_retrieve (demo_provider lapsed_sub) ''sub_1'' = Inr lapsed_sub"
    by (simp add: demo_provider_def)
  show ?thesis
    using status_classified [OF demo_found r1] status_classified [OF demo_found r2]
      status_classified [OF demo_found r3]
    by (simp add: demo_sub_def lapsed_sub_def)
qed

text \<open>
  Claim C5. When the status poll reads a snapshot whose raw status is not \<open>active\<close>, the
  user's row afterwards is the row it found with status \<open>inactive\<close> and with the
  subscription id and the expiry set to \<open>null\<close>.
\<close>

theorem terminal_clearing:
  assumes "found_subscription (select_single (EqId uid) (profiles w)) = Some (p, sid)"
    and "subscriptions_retrieve stripe sid = Inr sub"
    and "status sub \<noteq> ''active''"
  shows "select_single (EqId uid) (profiles (snd (get_status stripe uid w))) =
           Some (p\<lparr>subscription_status := Some ''inactive'', subscription_id := None,
                   subscription_expires_at := None\<rparr>)"
proof -
  have sel: "select_single (EqId uid) (profiles (call_stripe (Retrieve sid) w)) = Some p"
    using found_subscriptionD [OF assms(1)] by simp
  show ?thesis
    using get_status_not_active [OF assms] select_single_db_update [OF sel]
    by (simp add: status_not_active_def)
qed

theorem terminal_clearing_witness:
  "select_single (EqId ''u1'')
     (profiles (snd (get_status (demo_provider lapsed_sub) ''u1'' demo_world))) =
   Some \<lparr>row_id = ''u1'', stripe_customer_id = Some ''cus_1'', subscription_id = None,
         subscription_status = Some ''inactive'', subscription_expires_at = None\<rparr>"
proof -
  have r: "subscriptions_retrieve (demo_provider lapsed_sub) ''sub_1'' = Inr lapsed_sub"
    by (simp add: demo_provider_def)
  have s: "status lapsed_sub \<noteq> ''active''" by (simp add: lapsed_sub_def demo_sub_def)
  show ?thesis using terminal_clearing [OF demo_found r s] by (simp add: demo_profile_def)
qed

text \<open>
  Claim C2, as the code has it. In the status poll of an active subscription a write is
  sent to the table only when the computed status or the computed expiry differs from
  the stored one; when both are the stored values, nothing is written and the table is
  as before. The cancellation, the reactivation and the handling of an update event for
  an active subscription each send their update whatever is stored.
\<close>

theorem writes_by_path:
  assumes "found_subscription (select_single (EqId uid) (profiles w)) = Some (p, sid)"
  shows "(subscriptions_retrieve stripe sid = Inr sub \<and> status sub = ''active'' \<longrightarrow>
            (db_writes (snd (get_status stripe uid w)) \<noteq> db_writes w \<longrightarrow>
               Some (active_status (cancel_at_period_end sub)) \<noteq> subscription_status p
               \<or> guarded_expiresAt (fallback_periodEnd (current_period_end sub)
                    (billing_cycle_anchor sub)) \<noteq> subscription_expires_at p)
          \<and> (Some (active_status (cancel_at_period_end sub)) = subscription_status p
               \<and> guarded_expiresAt (fallback_periodEnd (current_period_end sub)
                    (billing_cycle_anchor sub)) = subscription_expires_at p \<longrightarrow>
               db_writes (snd (get_status stripe uid w)) = db_writes w
               \<and> profiles (snd (get_status stripe uid w)) = profiles w))
       \<and> (subscriptions_update stripe sid True = Inr sub \<longrightarrow>
            db_writes (snd (post_cancel stripe uid w)) =
              db_writes w @ [(EqId uid, [(''subscription_status'', Some ''active_until_period_end'')])])
       \<and> (subscriptions_update stripe sid False = Inr sub \<longrightarrow>
            db_writes (snd (post_reactivate stripe uid w)) =
              db_writes w @ [(EqId uid, [(''subscription_status'', Some ''active'')])])
       \<and> (webhooks_constructEvent stripe (raw_body req) (stripe_signature req) secret = Inr ev
            \<and> ev_type ev = ''customer.subscription.updated''
            \<and> status (data_object ev) = ''active'' \<longrightarrow>
            db_writes (snd (post_webhook stripe secret req w)) =
              db_writes w @ [(EqCustomer (customer (data_object ev)),
                              webhook_updateData (data_object ev))])"
proof (intro conjI)
  show "subscriptions_retrieve stripe sid = Inr sub \<and> status sub = ''active'' \<longrightarrow>
            (db_writes (snd (get_status stripe uid w)) \<noteq> db_writes w \<longrightarrow>
               Some (active_status (cancel_at_period_end sub)) \<noteq> subscription_status p
               \<or> guarded_expiresAt (fallback_periodEnd (current_period_end sub)
                    (billing_cycle_anchor sub)) \<noteq> subscription_expires_at p)
          \<and> (Some (active_status (cancel_at_period_end sub)) = subscription_status p
               \<and> guarded_expiresAt (fallback_periodEnd (current_period_end sub)
                    (billing_cycle_anchor sub)) = subscription_expires_at p \<longrightarrow>
               db_writes (snd (get_status stripe uid w)) = db_writes w
               \<and> profiles (snd (get_status stripe uid w)) = profiles w)"
  proof (rule impI)
    assume a: "subscriptions_retrieve stripe sid = Inr sub \<and> status sub = ''active''"
    then have g: "get_status stripe uid w = status_active uid p sub (call_stripe (Retrieve sid) w)"
      using get_status_active [OF assms, of stripe sub] by simp
    show "(db_writes (snd (get_status stripe uid w)) \<noteq> db_writes w \<longrightarrow>
               Some (active_status (cancel_at_period_end sub)) \<noteq> subscription_status p
               \<or> guarded_expiresAt (fallback_periodEnd (current_period_end sub)
                    (billing_cycle_anchor sub)) \<noteq> subscription_expires_at p)
          \<and> (Some (active_status (cancel_at_period_end sub)) = subscription_status p
               \<and> guarded_expiresAt (fallback_periodEnd (current_period_end sub)
                    (billing_cycle_anchor sub)) = subscription_expires_at p \<longrightarrow>
               db_writes (snd (get_status stripe uid w)) = db_writes w
               \<and> profiles (snd (get_status stripe uid w)) = profiles w)"
      using status_updateData_cases [of p "active_status (cancel_at_period_end sub)"
          "guarded_expiresAt (fallback_periodEnd (current_period_end sub)
             (billing_cycle_anchor sub))"]
      unfolding g by (auto simp: status_active_def Let_def)
  qed
next
  show "subscriptions_update stripe sid True = Inr sub \<longrightarrow>
            db_writes (snd (post_cancel stripe uid w)) =
              db_writes w @ [(EqId uid, [(''subscription_status'', Some ''active_until_period_end'')])]"
    using assms by (simp add: post_cancel_def Let_def db_update_def)
next
  show "subscriptions_update stripe sid False = Inr sub \<longrightarrow>
            db_writes (snd (post_reactivate stripe uid w)) =
              db_writes w @ [(EqId uid, [(''subscription_status'', Some ''active'')])]"
    using assms by (simp add: post_reactivate_def Let_def db_update_def)
next
  show "webhooks_constructEvent stripe (raw_body req) (stripe_signature req) secret = Inr ev
            \<and> ev_type ev = ''customer.subscription.updated''
            \<and> status (data_object ev) = ''active'' \<longrightarrow>
            db_writes (snd (post_webhook stripe secret req w)) =
              db_writes w @ [(EqCustomer (customer (data_object ev)),
                              webhook_updateData (data_object ev))]"
    by (simp add: post_webhook_def handle_event_def Let_def db_update_def)
qed

theorem writes_by_path_witness:
  "db_writes (snd (get_status (demo_provider demo_sub) ''u1'' demo_world)) = db_writes demo_world
   \<and> profiles (snd (get_status (demo_provider demo_sub) ''u1'' demo_world)) = profiles demo_world
   \<and> db_writes (snd (post_reactivate (demo_provider demo_sub) ''u1'' demo_world)) =
       [(EqId ''u1'', [(''subscription_status'', Some ''active'')])]"
proof -
  have r: "subscriptions_retrieve (demo_provider demo_sub) ''sub_1'' = Inr demo_sub
           \<and> status demo_sub = ''active''"
    by (simp add: demo_provider_def demo_sub_def)
  have u: "subscriptions_update (demo_provider demo_sub) ''sub_1'' False =
           Inr (demo_sub\<lparr>cancel_at_period_end := JBool False\<rparr>)"
    by (simp add: demo_provider_def)
  show ?thesis
    using writes_by_path [OF demo_found, of "demo_provider demo_sub" demo_sub] r
      writes_by_path [OF demo_found, of "demo_provider demo_sub"
        "demo_sub\<lparr>cancel_at_period_end := JBool False\<rparr>"] u
      timestamp_sample
    by (simp add: demo_sub_def demo_profile_def demo_world_def active_status_def
          guarded_expiresAt_def fallback_periodEnd_def)
qed

text \<open>
  Claim C2 as it is written fails on the cancellation: with \<open>active_until_period_end\<close>
  already stored, the route sends its update all the same, and the table is unchanged.
\<close>

theorem cancel_writes_unchanged_counterexample:
  "db_writes scheduled_world = []
   \<and> map subscription_status (profiles scheduled_world) = [Some ''active_until_period_end'']
   \<and> profiles (snd (post_cancel (demo_provider demo_sub) ''u1'' scheduled_world)) =
       profiles scheduled_world
   \<and> db_writes (snd (post_cancel (demo_provider demo_sub) ''u1'' scheduled_world)) =
       [(EqId ''u1'', [(''subscription_status'', Some ''active_until_period_end'')])]"
  by (simp add: scheduled_world_def demo_world_def demo_profile_def post_cancel_def
        found_subscription_def select_single_def demo_provider_def db_update_def
        call_stripe_def Let_def)

section \<open>Cancellation and reactivation without a subscription\<close>

text \<open>
  Claim C9. For a user whose row has no subscription id, the cancellation and the
  reactivation both answer 404 and leave the world as it was: no call to the provider
  is logged and no update is sent to the table.
\<close>

theorem not_found_no_mutation:
  assumes "select_single (EqId uid) (profiles w) = Some p" and "subscription_id p = None"
  shows "post_cancel stripe uid w =
           (status_json 404 [(''error'', JStr ''No active subscription found'')], w)
       \<and> post_reactivate stripe uid w =
           (status_json 404 [(''error'', JStr ''No subscription found'')], w)"
  using assms by (simp add: post_cancel_def post_reactivate_def found_subscription_def)

theorem not_found_no_mutation_witness:
  "post_cancel (demo_provider demo_sub) ''u1'' fresh_world =
     (status_json 404 [(''error'', JStr ''No active subscription found'')], fresh_world)
   \<and> post_reactivate (demo_provider demo_sub) ''u1'' fresh_world =
     (status_json 404 [(''error'', JStr ''No subscription found'')], fresh_world)"
proof -
  have s: "select_single (EqId ''u1'') (profiles fresh_world) =
      Some (demo_profile\<lparr>subscription_id := None, subscription_status := None,
                          subscription_expires_at := None\<rparr>)"
    by (simp add: select_single_def fresh_world_def demo_world_def demo_profile_def)
  have n: "subscription_id (demo_profile\<lparr>subscription_id := None, subscription_status := None,
                          subscription_expires_at := None\<rparr>) = None"
    by simp
  show ?thesis using not_found_no_mutation [OF s n] by simp
qed

section \<open>The webhook\<close>

text \<open>
  Claim C8. When the verification of a delivery throws, the handler answers 400 and the
  world is the one it started from; the event, and so every field of its snapshot, only
  exists as the result of a verification that succeeded.
\<close>

theorem signature_failure_aborts:
  assumes "webhooks_constructEvent stripe (raw_body req) (stripe_signature req) secret = Inl e"
  shows "post_webhook stripe secret req w =
           (status_json 400 [(''error'', JStr ''Webhook signature verification failed'')], w)"
  using assms by (simp add: post_webhook_def)

theorem signature_failure_aborts_witness:
  "post_webhook (demo_provider demo_sub) ''whsec'' unsigned_request demo_world =
     (status_json 400 [(''error'', JStr ''Webhook signature verification failed'')], demo_world)"
proof -
  have c: "webhooks_constructEvent (demo_provider demo_sub) (raw_body unsigned_request)
             (stripe_signature unsigned_request) ''whsec'' =
           Inl (Thrown ''No signatures found matching the expected signature'')"
    by (simp add: demo_provider_def unsigned_request_def)
  show ?thesis using signature_failure_aborts [OF c] by simp
qed

text \<open>
  Claim C6. A verified \<open>customer.subscription.deleted\<close> event for customer \<open>C\<close> turns
  every row whose \<open>stripe_customer_id\<close> is \<open>C\<close> into the same row with status
  \<open>cancelled\<close> and with the subscription id and the expiry \<open>null\<close>, whatever was stored,
  and leaves the other rows alone.
\<close>

theorem deletion_event:
  assumes "webhooks_constructEvent stripe (raw_body req) (stripe_signature req) secret = Inr ev"
    and "ev_type ev = ''customer.subscription.deleted''"
  shows "profiles (snd (post_webhook stripe secret req w)) =
           map (\<lambda>r. if stripe_customer_id r = Some (customer (data_object ev))
                    then r\<lparr>subscription_status := Some ''cancelled'', subscription_id := None,
                           subscription_expires_at := None\<rparr>
                    else r) (profiles w)
         \<and> (\<forall>r \<in> set (profiles (snd (post_webhook stripe secret req w))).
              stripe_customer_id r = Some (customer (data_object ev)) \<longrightarrow>
              subscription_status r = Some ''cancelled'' \<and> subscription_id r = None
              \<and> subscription_expires_at r = None)"
proof -
  have eq: "profiles (snd (post_webhook stripe secret req w)) =
           map (\<lambda>r. if stripe_customer_id r = Some (customer (data_object ev))
                    then r\<lparr>subscription_status := Some ''cancelled'', subscription_id := None,
                           subscription_expires_at := None\<rparr>
                    else r) (profiles w)"
    using assms by (simp add: post_webhook_def handle_event_def db_update_def Let_def)
  show ?thesis unfolding eq by auto
qed

theorem deletion_event_witness:
  "profiles (snd (post_webhook (demo_provider demo_sub) ''whsec''
      (demo_request ''customer.subscription.deleted'') demo_world)) =
   [\<lparr>row_id = ''u1'', stripe_customer_id = Some ''cus_1'', subscription_id = None,
     subscription_status = Some ''cancelled'', subscription_expires_at = None\<rparr>]"
proof -
  have c: "webhooks_constructEvent (demo_provider demo_sub)
             (raw_body (demo_request ''customer.subscription.deleted''))
             (stripe_signature (demo_request ''customer.subscription.deleted'')) ''whsec'' =
           Inr \<lparr>ev_type = ''customer.subscription.deleted'', data_object = demo_sub\<rparr>"
    by (simp add: demo_provider_def demo_request_def)
  show ?thesis
    using deletion_event [OF c, of demo_world]
    by (simp add: demo_world_def demo_profile_def demo_sub_def)
qed

lemma webhook_updateData_cases:
  "webhook_updateData obj =
     [(''subscription_status'', Some (active_status (cancel_at_period_end obj)))]
     \<and> (timestampToISOString (fallback_periodEnd (current_period_end obj)
           (billing_cycle_anchor obj)) \<in> {None, Some []})
   \<or> (\<exists>x. timestampToISOString (fallback_periodEnd (current_period_end obj)
                (billing_cycle_anchor obj)) = Some x \<and>
        webhook_updateData obj =
          [(''subscription_status'', Some (active_status (cancel_at_period_end obj))),
           (''subscription_expires_at'', Some x)])"
  by (cases "timestampToISOString (fallback_periodEnd (current_period_end obj)
        (billing_cycle_anchor obj))") (auto simp: webhook_updateData_def Let_def)

lemma handle_event_form:
  "(\<forall>w. handle_event ev w = w)
   \<or> (\<exists>u. (\<forall>w. handle_event ev w = db_update (EqCustomer (customer (data_object ev))) u w)
          \<and> (\<forall>r. apply_update u (apply_update u r) = apply_update u r))"
proof (cases "ev_type ev = ''customer.subscription.deleted''")
  case True
  have "\<forall>r. apply_update [(''subscription_status'', Some ''cancelled''), (''subscription_id'', None),
            (''subscription_expires_at'', None)]
          (apply_update [(''subscription_status'', Some ''cancelled''), (''subscription_id'', None),
            (''subscription_expires_at'', None)] r) =
        apply_update [(''subscription_status'', Some ''cancelled''), (''subscription_id'', None),
            (''subscription_expires_at'', None)] r"
    by simp
  moreover have "\<forall>w. handle_event ev w = db_update (EqCustomer (customer (data_object ev)))
      [(''subscription_status'', Some ''cancelled''), (''subscription_id'', None),
       (''subscription_expires_at'', None)] w"
    using True by (simp add: handle_event_def Let_def)
  ultimately show ?thesis by blast
next
  case False
  show ?thesis
  proof (cases "ev_type ev = ''customer.subscription.updated'' \<and> status (data_object ev) = ''active''")
    case True
    then have h: "\<forall>w. handle_event ev w = db_update (EqCustomer (customer (data_object ev)))
        (webhook_updateData (data_object ev)) w"
      by (simp add: handle_event_def Let_def)
    have "\<forall>r. apply_update (webhook_updateData (data_object ev))
              (apply_update (webhook_updateData (data_object ev)) r) =
            apply_update (webhook_updateData (data_object ev)) r"
      using webhook_updateData_cases [of "data_object ev"] by auto
    with h show ?thesis by blast
  next
    case F2: False
    with False have "\<forall>w. handle_event ev w = w"
      by (auto simp: handle_event_def Let_def)
    then show ?thesis by blast
  qed
qed

lemma db_update_twice:
  assumes "\<forall>r. apply_update u (apply_update u r) = apply_update u r"
  shows "profiles (db_update f u (db_update f u w)) = profiles (db_update f u w)
       \<and> stripe_calls (db_update f u (db_update f u w)) = stripe_calls (db_update f u w)
       \<and> db_writes (db_update f u (db_update f u w)) =
           db_writes (db_update f u w) @ drop (length (db_writes w)) (db_writes (db_update f u w))"
  using assms by (simp add: db_update_def matches_apply_update)

text \<open>
  Claim C1, as the code has it. Delivering the same webhook twice leaves the table, and
  the log of provider calls, as one delivery leaves them; the second delivery sends to
  the table again exactly the updates that the first one sent.
\<close>

theorem webhook_redelivery:
  "profiles (snd (post_webhook stripe secret req (snd (post_webhook stripe secret req w)))) =
     profiles (snd (post_webhook stripe secret req w))
   \<and> stripe_calls (snd (post_webhook stripe secret req (snd (post_webhook stripe secret req w)))) =
     stripe_calls (snd (post_webhook stripe secret req w))
   \<and> db_writes (snd (post_webhook stripe secret req (snd (post_webhook stripe secret req w)))) =
     db_writes (snd (post_webhook stripe secret req w))
     @ drop (length (db_writes w)) (db_writes (snd (post_webhook stripe secret req w)))"
proof (cases "webhooks_constructEvent stripe (raw_body req) (stripe_signature req) secret")
  case (Inl e)
  then show ?thesis by (simp add: post_webhook_def)
next
  case (Inr ev)
  then have pw: "\<And>w. snd (post_webhook stripe secret req w) = handle_event ev w"
    by (simp add: post_webhook_def)
  from handle_event_form [of ev] show ?thesis
  proof (elim disjE exE conjE)
    assume "\<forall>w. handle_event ev w = w"
    then show ?thesis unfolding pw by simp
  next
    fix u
    assume h: "\<forall>w. handle_event ev w = db_update (EqCustomer (customer (data_object ev))) u w"
      and i: "\<forall>r. apply_update u (apply_update u r) = apply_update u r"
    show ?thesis unfolding pw using h db_update_twice [OF i] by simp
  qed
qed

text \<open>
  Claim C1 as it is written fails on its second half: the second delivery of an update
  event writes to the table, although the first one already left the row as it was.
\<close>

theorem webhook_redelivery_counterexample:
  "profiles delivered_once = profiles demo_world
   \<and> db_writes (snd (post_webhook (demo_provider demo_sub) ''whsec''
        (demo_request ''customer.subscription.updated'') delivered_once)) =
     db_writes delivered_once
     @ [(EqCustomer ''cus_1'',
         [(''subscription_status'', Some ''active''),
          (''subscription_expires_at'', Some ''2023-11-14T22:13:20.000Z'')])]"
  by (simp add: delivered_once_def post_webhook_def handle_event_def webhook_updateData_def
        demo_provider_def demo_request_def demo_sub_def demo_world_def demo_profile_def
        fallback_periodEnd_def active_status_def timestamp_sample db_update_def Let_def)

section \<open>The stored expiry is never cleared by the routes that keep a subscription\<close>

text \<open>The sample user subscribes: the route stores the id, the status and the expiry.\<close>

lemma create_sample:
  "post_create (demo_provider demo_sub) ''u1''
     \<lparr>customer_id = Some ''cus_1'', setup_intent_id = None\<rparr> fresh_world =
   (json [(''subscription_id'', JStr ''sub_1''), (''status'', JStr ''active''),
          (''current_period_end'', JNum (Fin 1700000000)),
          (''expires_at'', JStr ''2023-11-14T22:13:20.000Z'')],
    \<lparr>profiles = [demo_profile],
     db_writes = [(EqId ''u1'',
        [(''subscription_id'', Some ''sub_1''), (''subscription_status'', Some ''active''),
         (''subscription_expires_at'', Some ''2023-11-14T22:13:20.000Z'')])],
     stripe_calls = [ListPaymentMethods ''cus_1'', CreateSubscription ''cus_1'' ''pm_1'']\<rparr>)"
  by (simp add: post_create_def given_def from_setup_intent_def from_payment_methods_def
        demo_provider_def created_def demo_sub_def fallback_periodEnd_def guarded_expiresAt_def
        timestamp_sample create_updateData_def db_update_def call_stripe_def fresh_world_def
        demo_world_def demo_profile_def nullable_def apply_update_def Let_def)

lemma create_updateData_cases:
  "create_updateData sub e =
     [(''subscription_id'', Some (sub_id sub)), (''subscription_status'', Some (status sub))]
   \<or> (\<exists>x. create_updateData sub e =
        [(''subscription_id'', Some (sub_id sub)), (''subscription_status'', Some (status sub)),
         (''subscription_expires_at'', Some x)])"
  by (auto simp: create_updateData_def split: option.splits)

lemma created_kept:
  "list_all2 (\<lambda>r r'. subscription_expires_at r' = subscription_expires_at r
                    \<or> subscription_expires_at r' \<noteq> None)
     (profiles w) (profiles (snd (created uid sub w)))"
  using create_updateData_cases [of sub
      "guarded_expiresAt (fallback_periodEnd (current_period_end sub) (billing_cycle_anchor sub))"]
  by (auto simp: created_def Let_def db_update_def apply_update_def list_all2_map2 list_all2_same)

lemma from_setup_intent_profiles:
  "profiles (snd (from_setup_intent stripe si w)) = profiles w"
  by (simp add: from_setup_intent_def split: option.splits sum.splits)

lemma from_payment_methods_profiles:
  "profiles (snd (from_payment_methods stripe cid pm w)) = profiles w"
  by (simp add: from_payment_methods_def split: option.splits sum.splits)

lemma post_create_form:
  "profiles (snd (post_create stripe uid b w)) = profiles w
   \<or> (\<exists>sub w'. profiles w' = profiles w \<and> snd (post_create stripe uid b w) = snd (created uid sub w'))"
proof (cases "given (customer_id b)")
  case None
  then show ?thesis by (simp add: post_create_def)
next
  case (Some cid)
  obtain r1 w1 where s1: "from_setup_intent stripe (setup_intent_id b) w = (r1, w1)"
    by (cases "from_setup_intent stripe (setup_intent_id b) w")
  have p1: "profiles w1 = profiles w"
    using from_setup_intent_profiles [of stripe "setup_intent_id b" w] s1 by simp
  show ?thesis
  proof (cases r1)
    case (Inl e)
    then show ?thesis using Some s1 p1 by (simp add: post_create_def)
  next
    case (Inr pm1)
    obtain r2 w2 where s2: "from_payment_methods stripe cid pm1 w1 = (r2, w2)"
      by (cases "from_payment_methods stripe cid pm1 w1")
    have p2: "profiles w2 = profiles w"
      using from_payment_methods_profiles [of stripe cid pm1 w1] s2 p1 by simp
    show ?thesis
    proof (cases r2)
      case (Inl e)
      then show ?thesis using Some s1 Inr s2 p2 by (simp add: post_create_def)
    next
      case pm: (Inr pm2)
      show ?thesis
      proof (cases "given pm2")
        case None
        then show ?thesis using Some s1 Inr s2 pm p2 by (simp add: post_create_def)
      next
        case g: (Some pmv)
        show ?thesis
        proof (cases "subscriptions_create stripe cid pmv")
          case (Inl e)
          then show ?thesis using Some s1 Inr s2 pm g p2 by (simp add: post_create_def)
        next
          case sub: (Inr sub)
          have "snd (post_create stripe uid b w) =
                  snd (created uid sub (call_stripe (CreateSubscription cid pmv) w2))"
            using Some s1 Inr s2 pm g sub by (simp add: post_create_def)
          moreover have "profiles (call_stripe (CreateSubscription cid pmv) w2) = profiles w"
            using p2 by simp
          ultimately show ?thesis by blast
        qed
      qed
    qed
  qed
qed

lemma post_create_kept:
  "list_all2 (\<lambda>r r'. subscription_expires_at r' = subscription_expires_at r
                    \<or> subscription_expires_at r' \<noteq> None)
     (profiles w) (profiles (snd (post_create stripe uid b w)))"
  using post_create_form [of stripe uid b w]
proof (elim disjE exE conjE)
  assume "profiles (snd (post_create stripe uid b w)) = profiles w"
  then show ?thesis by (simp add: list_all2_same)
next
  fix sub w'
  assume "profiles w' = profiles w" "snd (post_create stripe uid b w) = snd (created uid sub w')"
  then show ?thesis using created_kept [of w' uid sub] by simp
qed

lemma same_db_update_status:
  "map subscription_expires_at (profiles (db_update flt [(''subscription_status'', s)] w)) =
   map subscription_expires_at (profiles w)"
  unfolding db_update_def by simp

lemma post_cancel_same:
  "map subscription_expires_at (profiles (snd (post_cancel stripe uid w))) =
   map subscription_expires_at (profiles w)"
  by (simp add: post_cancel_def Let_def same_db_update_status split: option.splits sum.splits)

lemma post_reactivate_same:
  "map subscription_expires_at (profiles (snd (post_reactivate stripe uid w))) =
   map subscription_expires_at (profiles w)"
  by (simp add: post_reactivate_def Let_def same_db_update_status split: option.splits sum.splits)

lemma kept_cases:
  assumes "w' = w \<or> (\<exists>s. w' = db_update flt [(''subscription_status'', s)] w)
     \<or> (\<exists>s x. e = Some x \<and>
          w' = db_update flt [(''subscription_status'', s), (''subscription_expires_at'', Some x)] w)"
  shows "(e = None \<longrightarrow>
            map subscription_expires_at (profiles w') = map subscription_expires_at (profiles w))
       \<and> list_all2 (\<lambda>r r'. subscription_expires_at r' = subscription_expires_at r
            \<or> (subscription_expires_at r' \<noteq> None \<and> subscription_expires_at r' = e))
          (profiles w) (profiles w')"
  using assms
proof (elim disjE exE conjE)
  assume "w' = w"
  then show ?thesis by (simp add: list_all2_same)
next
  fix s assume "w' = db_update flt [(''subscription_status'', s)] w"
  then show ?thesis by (simp add: db_update_def list_all2_map2 list_all2_same)
next
  fix s x
  assume "e = Some x"
    "w' = db_update flt [(''subscription_status'', s), (''subscription_expires_at'', Some x)] w"
  then show ?thesis by (simp add: db_update_def list_all2_map2 list_all2_same)
qed

lemma status_active_form:
  "snd (status_active uid p sub w) = w
   \<or> (\<exists>s. snd (status_active uid p sub w) = db_update (EqId uid) [(''subscription_status'', s)] w)
   \<or> (\<exists>s x. timestampToISOString (fallback_periodEnd (current_period_end sub)
                 (billing_cycle_anchor sub)) = Some x \<and>
        snd (status_active uid p sub w) =
          db_update (EqId uid)
            [(''subscription_status'', s), (''subscription_expires_at'', Some x)] w)"
  using status_updateData_cases [of p "active_status (cancel_at_period_end sub)"
      "guarded_expiresAt (fallback_periodEnd (current_period_end sub) (billing_cycle_anchor sub))"]
  by (auto simp: status_active_def Let_def guarded_expiresAt_eq)

lemma handle_updated_form:
  assumes "ev_type ev = ''customer.subscription.updated''"
  shows "handle_event ev w = w
   \<or> (\<exists>s. handle_event ev w =
          db_update (EqCustomer (customer (data_object ev))) [(''subscription_status'', s)] w)
   \<or> (\<exists>s x. timestampToISOString (fallback_periodEnd (current_period_end (data_object ev))
                 (billing_cycle_anchor (data_object ev))) = Some x \<and>
        handle_event ev w =
          db_update (EqCustomer (customer (data_object ev)))
            [(''subscription_status'', s), (''subscription_expires_at'', Some x)] w)"
  using webhook_updateData_cases [of "data_object ev"] assms
  by (auto simp: handle_event_def Let_def)

text \<open>
  Claim C10. In the status poll of an active subscription and in the handling of a
  \<open>customer.subscription.updated\<close> event, when the resolved expiry is \<open>null\<close> the
  stored expiry of every row is as before, and in any case a row's stored expiry is
  either as before or the resolved, non-null expiry. Creating, cancelling and
  reactivating a subscription never set a stored expiry to \<open>null\<close> either: the first
  keeps it or stores a value, the other two keep it.
\<close>

theorem expires_at_never_cleared:
  "(found_subscription (select_single (EqId uid) (profiles w)) = Some (p, sid)
      \<and> subscriptions_retrieve stripe sid = Inr sub \<and> status sub = ''active'' \<longrightarrow>
      (timestampToISOString (fallback_periodEnd (current_period_end sub)
           (billing_cycle_anchor sub)) = None \<longrightarrow>
         map subscription_expires_at (profiles (snd (get_status stripe uid w))) =
         map subscription_expires_at (profiles w))
      \<and> list_all2 (\<lambda>r r'. subscription_expires_at r' = subscription_expires_at r
            \<or> (subscription_expires_at r' \<noteq> None \<and> subscription_expires_at r' =
                timestampToISOString (fallback_periodEnd (current_period_end sub)
                  (billing_cycle_anchor sub))))
          (profiles w) (profiles (snd (get_status stripe uid w))))
   \<and> (webhooks_constructEvent stripe (raw_body req) (stripe_signature req) secret = Inr ev
      \<and> ev_type ev = ''customer.subscription.updated'' \<longrightarrow>
      (timestampToISOString (fallback_periodEnd (current_period_end (data_object ev))
           (billing_cycle_anchor (data_object ev))) = None \<longrightarrow>
         map subscription_expires_at (profiles (snd (post_webhook stripe secret req w))) =
         map subscription_expires_at (profiles w))
      \<and> list_all2 (\<lambda>r r'. subscription_expires_at r' = subscription_expires_at r
            \<or> (subscription_expires_at r' \<noteq> None \<and> subscription_expires_at r' =
                timestampToISOString (fallback_periodEnd (current_period_end (data_object ev))
                  (billing_cycle_anchor (data_object ev)))))
          (profiles w) (profiles (snd (post_webhook stripe secret req w))))
   \<and> list_all2 (\<lambda>r r'. subscription_expires_at r' = subscription_expires_at r
                      \<or> subscription_expires_at r' \<noteq> None)
        (profiles w) (profiles (snd (post_create stripe uid req_body w)))
   \<and> map subscription_expires_at (profiles (snd (post_cancel stripe uid w))) =
       map subscription_expires_at (profiles w)
   \<and> map subscription_expires_at (profiles (snd (post_reactivate stripe uid w))) =
       map subscription_expires_at (profiles w)"
proof (intro conjI)
  show "found_subscription (select_single (EqId uid) (profiles w)) = Some (p, sid)
      \<and> subscriptions_retrieve stripe sid = Inr sub \<and> status sub = ''active'' \<longrightarrow>
      (timestampToISOString (fallback_periodEnd (current_period_end sub)
           (billing_cycle_anchor sub)) = None \<longrightarrow>
         map subscription_expires_at (profiles (snd (get_status stripe uid w))) =
         map subscription_expires_at (profiles w))
      \<and> list_all2 (\<lambda>r r'. subscription_expires_at r' = subscription_expires_at r
            \<or> (subscription_expires_at r' \<noteq> None \<and> subscription_expires_at r' =
                timestampToISOString (fallback_periodEnd (current_period_end sub)
                  (billing_cycle_anchor sub))))
          (profiles w) (profiles (snd (get_status stripe uid w)))"
  proof (rule impI)
    assume a: "found_subscription (select_single (EqId uid) (profiles w)) = Some (p, sid)
      \<and> subscriptions_retrieve stripe sid = Inr sub \<and> status sub = ''active''"
    then have g: "snd (get_status stripe uid w) =
        snd (status_active uid p sub (call_stripe (Retrieve sid) w))"
      using get_status_active [of uid w p sid stripe sub] by simp
    show "(timestampToISOString (fallback_periodEnd (current_period_end sub)
           (billing_cycle_anchor sub)) = None \<longrightarrow>
         map subscription_expires_at (profiles (snd (get_status stripe uid w))) =
         map subscription_expires_at (profiles w))
      \<and> list_all2 (\<lambda>r r'. subscription_expires_at r' = subscription_expires_at r
            \<or> (subscription_expires_at r' \<noteq> None \<and> subscription_expires_at r' =
                timestampToISOString (fallback_periodEnd (current_period_end sub)
                  (billing_cycle_anchor sub))))
          (profiles w) (profiles (snd (get_status stripe uid w)))"
      using kept_cases [OF status_active_form [of uid p sub "call_stripe (Retrieve sid) w"]]
      unfolding g by simp
  qed
next
  show "webhooks_constructEvent stripe (raw_body req) (stripe_signature req) secret = Inr ev
      \<and> ev_type ev = ''customer.subscription.updated'' \<longrightarrow>
      (timestampToISOString (fallback_periodEnd (current_period_end (data_object ev))
           (billing_cycle_anchor (data_object ev))) = None \<longrightarrow>
         map subscription_expires_at (profiles (snd (post_webhook stripe secret req w))) =
         map subscription_expires_at (profiles w))
      \<and> list_all2 (\<lambda>r r'. subscription_expires_at r' = subscription_expires_at r
            \<or> (subscription_expires_at r' \<noteq> None \<and> subscription_expires_at r' =
                timestampToISOString (fallback_periodEnd (current_period_end (data_object ev))
                  (billing_cycle_anchor (data_object ev)))))
          (profiles w) (profiles (snd (post_webhook stripe secret req w)))"
  proof (rule impI)
    assume a: "webhooks_constructEvent stripe (raw_body req) (stripe_signature req) secret = Inr ev
      \<and> ev_type ev = ''customer.subscription.updated''"
    then have pw: "snd (post_webhook stripe secret req w) = handle_event ev w"
      by (simp add: post_webhook_def)
    from a have t: "ev_type ev = ''customer.subscription.updated''" by simp
    show "(timestampToISOString (fallback_periodEnd (current_period_end (data_object ev))
           (billing_cycle_anchor (data_object ev))) = None \<longrightarrow>
         map subscription_expires_at (profiles (snd (post_webhook stripe secret req w))) =
         map subscription_expires_at (profiles w))
      \<and> list_all2 (\<lambda>r r'. subscription_expires_at r' = subscription_expires_at r
            \<or> (subscription_expires_at r' \<noteq> None \<and> subscription_expires_at r' =
                timestampToISOString (fallback_periodEnd (current_period_end (data_object ev))
                  (billing_cycle_anchor (data_object ev)))))
          (profiles w) (profiles (snd (post_webhook stripe secret req w)))"
      using kept_cases [OF handle_updated_form [OF t, of w]]
      unfolding pw by simp
  qed
next
  show "list_all2 (\<lambda>r r'. subscription_expires_at r' = subscription_expires_at r
                      \<or> subscription_expires_at r' \<noteq> None)
        (profiles w) (profiles (snd (post_create stripe uid req_body w)))"
    by (rule post_create_kept)
next
  show "map subscription_expires_at (profiles (snd (post_cancel stripe uid w))) =
       map subscription_expires_at (profiles w)"
    by (rule post_cancel_same)
next
  show "map subscription_expires_at (profiles (snd (post_reactivate stripe uid w))) =
       map subscription_expires_at (profiles w)"
    by (rule post_reactivate_same)
qed

theorem expires_at_never_cleared_witness:
  "map subscription_expires_at
     (profiles (snd (get_status (demo_provider no_end_sub) ''u1'' demo_world))) =
   [Some ''2023-11-14T22:13:20.000Z'']
   \<and> map subscription_expires_at
     (profiles (snd (post_webhook (demo_provider no_end_sub) ''whsec''
        (demo_request ''customer.subscription.updated'') demo_world))) =
   [Some ''2023-11-14T22:13:20.000Z'']"
proof -
  have r: "subscriptions_retrieve (demo_provider no_end_sub) ''sub_1'' = Inr no_end_sub
           \<and> status no_end_sub = ''active''"
    by (simp add: demo_provider_def no_end_sub_def demo_sub_def)
  have c: "webhooks_constructEvent (demo_provider no_end_sub)
             (raw_body (demo_request ''customer.subscription.updated''))
             (stripe_signature (demo_request ''customer.subscription.updated'')) ''whsec'' =
           Inr \<lparr>ev_type = ''customer.subscription.updated'', data_object = no_end_sub\<rparr>"
    by (simp add: demo_provider_def demo_request_def)
  have t: "timestampToISOString (fallback_periodEnd (current_period_end no_end_sub)
             (billing_cycle_anchor no_end_sub)) = None"
    by (simp add: no_end_sub_def demo_sub_def fallback_periodEnd_def timestampToISOString_def)
  show ?thesis
    using expires_at_never_cleared [of "''u1''" demo_world demo_profile "''sub_1''"
        "demo_provider no_end_sub" no_end_sub "demo_request ''customer.subscription.updated''"
        "''whsec''" "\<lparr>ev_type = ''customer.subscription.updated'', data_object = no_end_sub\<rparr>"]
      demo_found r c t
    by (simp add: demo_world_def demo_profile_def)
qed

end
